theory Spec2Isabelle
  imports Main "HOL-Library.AList"
begin

section \<open>ConnectChat backend: record store, connection registry and handlers\<close>

text \<open>
  A shallow embedding of \<^verbatim>\<open>backend/server.py\<close>. The Supabase tables are lists of
  rows in insertion order, the two module-level dictionaries \<^verbatim>\<open>connected_users\<close> and
  \<^verbatim>\<open>user_rooms\<close> are association lists (Python dictionaries keep insertion order,
  and \<^verbatim>\<open>disconnect\<close> scans them in that order), and every \<^verbatim>\<open>sio.emit\<close> appends
  one entry to a log of emitted events. An \<^verbatim>\<open>HTTPException\<close> is a value of type
  \<open>error\<close>; a handler returns its result together with the state it leaves behind,
  since nothing written before a raise is rolled back.

  Values the handlers draw from their environment are arguments: \<open>uuid k\<close> is the
  \<open>k\<close>-th \<^verbatim>\<open>uuid.uuid4()\<close> of a call, \<open>clock k\<close> the \<open>k\<close>-th
  \<^verbatim>\<open>datetime.now\<close> (timestamps are natural numbers, ordered as time is), and
  \<open>los\<close> is the order in which \<^verbatim>\<open>list(set(...))\<close> enumerates a set, which Python
  leaves unspecified.
\<close>

subsection \<open>Rows of the record store\<close>

datatype request_status = Pending | Accepted | Rejected

record user_row =
  u_id :: string
  u_email :: string
  u_username :: string
  u_password_hash :: string
  u_avatar_url :: "string option"
  u_created_at :: nat

record conversation_row =
  c_id :: string
  c_name :: "string option"
  c_is_group :: bool
  c_created_by :: string
  c_created_at :: nat

record participant_row =
  p_id :: string
  p_conversation_id :: string
  p_user_id :: string
  p_joined_at :: nat

record message_row =
  m_id :: string
  m_conversation_id :: string
  m_sender_id :: string
  m_content :: string
  m_message_type :: string
  m_read_by :: "string list"
  m_created_at :: nat

record chat_request_row =
  r_id :: string
  r_sender_id :: string
  r_receiver_id :: string
  r_message :: "string option"
  r_status :: request_status
  r_is_group_invite :: bool
  r_conversation_id :: "string option"
  r_created_at :: nat

subsection \<open>Request and response models\<close>

record UserResponse =
  ur_id :: string
  ur_email :: string
  ur_username :: string
  ur_avatar_url :: "string option"
  ur_is_online :: bool
  ur_created_at :: nat

record MessageCreate =
  mc_conversation_id :: string
  mc_content :: string
  mc_message_type :: string

record MessageResponse =
  mr_id :: string
  mr_conversation_id :: string
  mr_sender_id :: string
  mr_sender_username :: string
  mr_sender_avatar :: "string option"
  mr_content :: string
  mr_message_type :: string
  mr_read_by :: "string list"
  mr_created_at :: nat

record ConversationCreate =
  cc_name :: "string option"
  cc_is_group :: bool
  cc_participant_ids :: "string list"

record ConversationResponse =
  cr_id :: string
  cr_name :: "string option"
  cr_is_group :: bool
  cr_participants :: "UserResponse list"
  cr_last_message :: "MessageResponse option"
  cr_created_at :: nat
  cr_created_by :: string

record ChatRequestCreate =
  rc_receiver_id :: string
  rc_message :: "string option"
  rc_is_group_invite :: bool
  rc_conversation_id :: "string option"

record ChatRequestResponse =
  rr_id :: string
  rr_sender_id :: string
  rr_sender_username :: string
  rr_sender_avatar :: "string option"
  rr_receiver_id :: string
  rr_message :: "string option"
  rr_status :: request_status
  rr_is_group_invite :: bool
  rr_conversation_id :: "string option"
  rr_created_at :: nat

record WebRTCSignal =
  ws_type :: string
  ws_target_user_id :: string
  ws_conversation_id :: string
  ws_signal_data :: "(string \<times> string) list"

text \<open>
  The dictionary a client sends with a call or WebRTC socket event; a key that is
  missing is \<open>None\<close>, as \<^verbatim>\<open>data.get\<close> gives, and \<open>cd_rest\<close> holds the keys the
  handlers do not read (the offer, the answer, the candidate).
\<close>

record call_data =
  cd_target_user_id :: "string option"
  cd_caller_id :: "string option"
  cd_conversation_id :: "string option"
  cd_call_type :: "string option"
  cd_rest :: "(string \<times> string) list"

text \<open>
  What a signalling handler returns: a dictionary \<^verbatim>\<open>{"status": ...}\<close>, or nothing
  (Python's \<^verbatim>\<open>None\<close>) when the function has no \<^verbatim>\<open>return\<close>.
\<close>

datatype reply = Status string | NoReply

subsection \<open>Errors, emitted events and the state\<close>

datatype error =
    ConversationNotFound
  | NotParticipant
  | SendFailed
  | MessageNotFound
  | RequestAlreadySent
  | CreateRequestFailed
  | RequestNotFound
  | RequestAlreadyProcessed
  | IndexError

fun status_code :: "error \<Rightarrow> nat" where
  "status_code ConversationNotFound = 404"
| "status_code NotParticipant = 403"
| "status_code SendFailed = 500"
| "status_code MessageNotFound = 404"
| "status_code RequestAlreadySent = 400"
| "status_code CreateRequestFailed = 500"
| "status_code RequestNotFound = 404"
| "status_code RequestAlreadyProcessed = 400"
| "status_code IndexError = 500"

datatype payload =
    NewMessage MessageResponse
  | MessageRead string string
  | NewChatRequest ChatRequestResponse
  | Signal string string string "(string \<times> string) list"
  | UserOffline string
  | IncomingCall "string option" string "string option" "string option" string
  | Data call_data

record emit =
  e_event :: string
  e_payload :: payload
  e_room :: "string option"

record state =
  users :: "user_row list"
  conversations :: "conversation_row list"
  conversation_participants :: "participant_row list"
  messages :: "message_row list"
  chat_requests :: "chat_request_row list"
  connected_users :: "(string \<times> string) list"
  user_rooms :: "(string \<times> string list) list"
  emitted :: "emit list"

definition sio_emit :: "string \<Rightarrow> payload \<Rightarrow> string option \<Rightarrow> state \<Rightarrow> state" where
  "sio_emit ev pl rm s = s\<lparr>emitted := emitted s @ [\<lparr>e_event = ev, e_payload = pl, e_room = rm\<rparr>]\<rparr>"

subsection \<open>Queries of the record store\<close>

text \<open>
  \<^verbatim>\<open>.order('created_at', desc=True)\<close>: the rows by descending timestamp.
\<close>

definition order_desc :: "('a \<Rightarrow> nat) \<Rightarrow> 'a list \<Rightarrow> 'a list" where
  "order_desc key rows = rev (sort_key key rows)"

text \<open>
  \<^verbatim>\<open>.range(start, end)\<close>: the rows at the zero-based positions \<open>start\<close> to \<open>end\<close>,
  both included, of the ordered result.
\<close>

definition range_rows :: "int \<Rightarrow> int \<Rightarrow> 'a list \<Rightarrow> 'a list" where
  "range_rows start end rows = take (nat (end + 1) - nat start) (drop (nat start) rows)"

definition in_dict :: "'k \<Rightarrow> ('k \<times> 'v) list \<Rightarrow> bool" where
  "in_dict k d = (map_of d k \<noteq> None)"

subsection \<open>Helper functions\<close>

definition format_user :: "state \<Rightarrow> user_row \<Rightarrow> UserResponse" where
  "format_user s user =
     \<lparr>ur_id = u_id user, ur_email = u_email user, ur_username = u_username user,
      ur_avatar_url = u_avatar_url user,
      ur_is_online = in_dict (u_id user) (connected_users s),
      ur_created_at = u_created_at user\<rparr>"

text \<open>
  A message row has no \<^verbatim>\<open>sender_username\<close> or \<^verbatim>\<open>sender_avatar\<close> column, so without
  \<open>sender_info\<close> the defaults of \<^verbatim>\<open>msg.get\<close> are used.
\<close>

definition format_message :: "message_row \<Rightarrow> user_row option \<Rightarrow> MessageResponse" where
  "format_message msg sender_info =
     \<lparr>mr_id = m_id msg, mr_conversation_id = m_conversation_id msg,
      mr_sender_id = m_sender_id msg,
      mr_sender_username = (case sender_info of Some u \<Rightarrow> u_username u | None \<Rightarrow> ''Unknown''),
      mr_sender_avatar = (case sender_info of Some u \<Rightarrow> u_avatar_url u | None \<Rightarrow> None),
      mr_content = m_content msg, mr_message_type = m_message_type msg,
      mr_read_by = m_read_by msg, mr_created_at = m_created_at msg\<rparr>"

subsection \<open>Conversations\<close>

definition participants_of :: "state \<Rightarrow> string \<Rightarrow> string list" where
  "participants_of s conv_id =
     map p_user_id (filter (\<lambda>p. p_conversation_id p = conv_id) (conversation_participants s))"

definition get_conversation :: "state \<Rightarrow> string \<Rightarrow> string \<Rightarrow> error + ConversationResponse" where
  "get_conversation s conv_id user_id =
     (case filter (\<lambda>c. c_id c = conv_id) (conversations s) of
        [] \<Rightarrow> Inl ConversationNotFound
      | conv # _ \<Rightarrow>
          let participant_ids = participants_of s conv_id in
          if user_id \<notin> set participant_ids then Inl NotParticipant
          else
            let users_result = filter (\<lambda>u. u_id u \<in> set participant_ids) (users s);
                last_msg_result = take 1 (order_desc m_created_at
                    (filter (\<lambda>m. m_conversation_id m = conv_id) (messages s)));
                last_message = (case last_msg_result of
                    [] \<Rightarrow> None
                  | msg # _ \<Rightarrow> Some (format_message msg
                        (find (\<lambda>u. u_id u = m_sender_id msg) users_result)))
            in Inr \<lparr>cr_id = c_id conv, cr_name = c_name conv, cr_is_group = c_is_group conv,
                    cr_participants = map (format_user s) users_result,
                    cr_last_message = last_message,
                    cr_created_at = c_created_at conv, cr_created_by = c_created_by conv\<rparr>)"

text \<open>
  The loop of \<^verbatim>\<open>create_conversation\<close> over the caller's participant rows: the id of
  the first row whose conversation is not a group and whose participants are exactly
  \<open>all_participants\<close>.
\<close>

fun find_existing :: "state \<Rightarrow> string list \<Rightarrow> participant_row list \<Rightarrow> string option" where
  "find_existing s all_participants [] = None"
| "find_existing s all_participants (ep # eps) =
     (if filter (\<lambda>c. c_id c = p_conversation_id ep \<and> \<not> c_is_group c) (conversations s) \<noteq> []
         \<and> set (participants_of s (p_conversation_id ep)) = set all_participants
      then Some (p_conversation_id ep)
      else find_existing s all_participants eps)"

definition new_participants :: "(nat \<Rightarrow> string) \<Rightarrow> (nat \<Rightarrow> nat) \<Rightarrow> string \<Rightarrow> string list \<Rightarrow> participant_row list" where
  "new_participants uuid clock conv_id pids =
     map (\<lambda>(k, pid). \<lparr>p_id = uuid (Suc k), p_conversation_id = conv_id, p_user_id = pid,
                      p_joined_at = clock (Suc k)\<rparr>) (enumerate 0 pids)"

definition create_conversation ::
  "(string list \<Rightarrow> string list) \<Rightarrow> (nat \<Rightarrow> string) \<Rightarrow> (nat \<Rightarrow> nat) \<Rightarrow> state \<Rightarrow> ConversationCreate \<Rightarrow> string
     \<Rightarrow> (error + ConversationResponse) \<times> state" where
  "create_conversation los uuid clock s conv_data user_id =
     (let conv_id = uuid 0;
          all_participants = los (user_id # cc_participant_ids conv_data)
      in
        if \<not> cc_is_group conv_data \<and> length all_participants = 2
           \<and> filter (\<lambda>p. p \<noteq> user_id) all_participants = []
        then (Inl IndexError, s)
        else
          case (if \<not> cc_is_group conv_data \<and> length all_participants = 2
                then find_existing s all_participants
                       (filter (\<lambda>p. p_user_id p = user_id) (conversation_participants s))
                else None) of
            Some existing_id \<Rightarrow> (get_conversation s existing_id user_id, s)
          | None \<Rightarrow>
              let new_conv = \<lparr>c_id = conv_id,
                              c_name = (if cc_is_group conv_data then cc_name conv_data else None),
                              c_is_group = cc_is_group conv_data, c_created_by = user_id,
                              c_created_at = clock 0\<rparr>;
                  s' = s\<lparr>conversations := conversations s @ [new_conv],
                         conversation_participants := conversation_participants s
                            @ new_participants uuid clock conv_id all_participants\<rparr>
              in (get_conversation s' conv_id user_id, s'))"

subsection \<open>Messages\<close>

text \<open>
  \<open>insert_ok\<close> is the store's answer to the insert: \<open>True\<close> when the row is stored
  and returned in \<^verbatim>\<open>result.data\<close>, \<open>False\<close> when \<^verbatim>\<open>result.data\<close> is empty and
  nothing is stored.
\<close>

definition send_message ::
  "(nat \<Rightarrow> string) \<Rightarrow> (nat \<Rightarrow> nat) \<Rightarrow> bool \<Rightarrow> state \<Rightarrow> MessageCreate \<Rightarrow> string
     \<Rightarrow> (error + MessageResponse) \<times> state" where
  "send_message uuid clock insert_ok s msg_data user_id =
     (let participant = filter (\<lambda>p. p_conversation_id p = mc_conversation_id msg_data
                                     \<and> p_user_id p = user_id) (conversation_participants s)
      in
        if participant = [] then (Inl NotParticipant, s)
        else
          let sender = (case filter (\<lambda>u. u_id u = user_id) (users s) of
                          [] \<Rightarrow> None | u # _ \<Rightarrow> Some u);
              new_message = \<lparr>m_id = uuid 0, m_conversation_id = mc_conversation_id msg_data,
                              m_sender_id = user_id, m_content = mc_content msg_data,
                              m_message_type = mc_message_type msg_data,
                              m_read_by = [user_id], m_created_at = clock 0\<rparr>
          in
            if \<not> insert_ok then (Inl SendFailed, s)
            else
              let s' = s\<lparr>messages := messages s @ [new_message]\<rparr>;
                  message_response = format_message new_message sender
              in (Inr message_response,
                  sio_emit ''new_message'' (NewMessage message_response)
                    (Some (mc_conversation_id msg_data)) s'))"

definition get_messages ::
  "state \<Rightarrow> string \<Rightarrow> int \<Rightarrow> int \<Rightarrow> string \<Rightarrow> error + MessageResponse list" where
  "get_messages s conv_id limit offset user_id =
     (let participant = filter (\<lambda>p. p_conversation_id p = conv_id \<and> p_user_id p = user_id)
                          (conversation_participants s)
      in
        if participant = [] then Inl NotParticipant
        else
          let messages_result = range_rows offset (offset + limit - 1)
                (order_desc m_created_at (filter (\<lambda>m. m_conversation_id m = conv_id) (messages s)))
          in
            if messages_result = [] then Inr []
            else
              let sender_ids = remdups (map m_sender_id messages_result);
                  senders_result = filter (\<lambda>u. u_id u \<in> set sender_ids) (users s);
                  senders_map = map_of (rev (map (\<lambda>u. (u_id u, u)) senders_result))
              in Inr (rev (map (\<lambda>m. format_message m (senders_map (m_sender_id m)))
                             messages_result)))"

definition mark_message_read :: "state \<Rightarrow> string \<Rightarrow> string \<Rightarrow> (error + string) \<times> state" where
  "mark_message_read s msg_id user_id =
     (case filter (\<lambda>m. m_id m = msg_id) (messages s) of
        [] \<Rightarrow> (Inl MessageNotFound, s)
      | msg # _ \<Rightarrow>
          if user_id \<notin> set (m_read_by msg)
          then
            let read_by = m_read_by msg @ [user_id];
                s' = s\<lparr>messages := map (\<lambda>m. if m_id m = msg_id then m\<lparr>m_read_by := read_by\<rparr> else m)
                                       (messages s)\<rparr>
            in (Inr ''ok'',
                sio_emit ''message_read'' (MessageRead msg_id user_id)
                  (Some (m_conversation_id msg)) s')
          else (Inr ''ok'', s))"

subsection \<open>Chat requests\<close>

definition create_chat_request ::
  "(nat \<Rightarrow> string) \<Rightarrow> (nat \<Rightarrow> nat) \<Rightarrow> bool \<Rightarrow> state \<Rightarrow> ChatRequestCreate \<Rightarrow> string
     \<Rightarrow> (error + ChatRequestResponse) \<times> state" where
  "create_chat_request uuid clock insert_ok s req_data user_id =
     (let existing = filter (\<lambda>r. r_sender_id r = user_id \<and> r_receiver_id r = rc_receiver_id req_data
                                  \<and> r_status r = Pending) (chat_requests s)
      in
        if existing \<noteq> [] then (Inl RequestAlreadySent, s)
        else
          let sender = (case filter (\<lambda>u. u_id u = user_id) (users s) of
                          [] \<Rightarrow> None | u # _ \<Rightarrow> Some u);
              new_request = \<lparr>r_id = uuid 0, r_sender_id = user_id,
                              r_receiver_id = rc_receiver_id req_data,
                              r_message = rc_message req_data, r_status = Pending,
                              r_is_group_invite = rc_is_group_invite req_data,
                              r_conversation_id = rc_conversation_id req_data,
                              r_created_at = clock 0\<rparr>
          in
            if \<not> insert_ok then (Inl CreateRequestFailed, s)
            else
              let s' = s\<lparr>chat_requests := chat_requests s @ [new_request]\<rparr>;
                  response = \<lparr>rr_id = uuid 0, rr_sender_id = user_id,
                      rr_sender_username = (case sender of Some u \<Rightarrow> u_username u | None \<Rightarrow> ''Unknown''),
                      rr_sender_avatar = (case sender of Some u \<Rightarrow> u_avatar_url u | None \<Rightarrow> None),
                      rr_receiver_id = rc_receiver_id req_data,
                      rr_message = rc_message req_data, rr_status = Pending,
                      rr_is_group_invite = rc_is_group_invite req_data,
                      rr_conversation_id = rc_conversation_id req_data,
                      rr_created_at = clock 0\<rparr>
              in (Inr response,
                  case map_of (connected_users s) (rc_receiver_id req_data) of
                    Some sid \<Rightarrow> sio_emit ''new_chat_request'' (NewChatRequest response) (Some sid) s'
                  | None \<Rightarrow> s'))"

definition set_status :: "string \<Rightarrow> request_status \<Rightarrow> state \<Rightarrow> state" where
  "set_status req_id st s =
     s\<lparr>chat_requests := map (\<lambda>r. if r_id r = req_id then r\<lparr>r_status := st\<rparr> else r)
                             (chat_requests s)\<rparr>"

text \<open>Python's truth value of an optional string: \<^verbatim>\<open>None\<close> and \<^verbatim>\<open>''\<close> are false.\<close>

fun truthy :: "string option \<Rightarrow> bool" where
  "truthy None = False"
| "truthy (Some x) = (x \<noteq> [])"

definition accept_chat_request ::
  "(string list \<Rightarrow> string list) \<Rightarrow> (nat \<Rightarrow> string) \<Rightarrow> (nat \<Rightarrow> nat) \<Rightarrow> state \<Rightarrow> string \<Rightarrow> string
     \<Rightarrow> (error + ConversationResponse) \<times> state" where
  "accept_chat_request los uuid clock s req_id user_id =
     (case filter (\<lambda>r. r_id r = req_id \<and> r_receiver_id r = user_id) (chat_requests s) of
        [] \<Rightarrow> (Inl RequestNotFound, s)
      | req # _ \<Rightarrow>
          if r_status req \<noteq> Pending then (Inl RequestAlreadyProcessed, s)
          else
            let s1 = set_status req_id Accepted s in
            if r_is_group_invite req \<and> truthy (r_conversation_id req)
            then
              let conv_id = the (r_conversation_id req);
                  s2 = s1\<lparr>conversation_participants := conversation_participants s1
                          @ [\<lparr>p_id = uuid 0, p_conversation_id = conv_id, p_user_id = user_id,
                               p_joined_at = clock 0\<rparr>]\<rparr>
              in (get_conversation s2 conv_id user_id, s2)
            else
              create_conversation los uuid clock s1
                \<lparr>cc_name = None, cc_is_group = False, cc_participant_ids = [r_sender_id req]\<rparr>
                user_id)"

definition reject_chat_request :: "state \<Rightarrow> string \<Rightarrow> string \<Rightarrow> (error + string) \<times> state" where
  "reject_chat_request s req_id user_id =
     (case filter (\<lambda>r. r_id r = req_id \<and> r_receiver_id r = user_id) (chat_requests s) of
        [] \<Rightarrow> (Inl RequestNotFound, s)
      | req # _ \<Rightarrow> (Inr ''rejected'', set_status req_id Rejected s))"

subsection \<open>Signalling and the connection registry\<close>

definition webrtc_signal :: "state \<Rightarrow> WebRTCSignal \<Rightarrow> string \<Rightarrow> reply \<times> state" where
  "webrtc_signal s signal user_id =
     (case map_of (connected_users s) (ws_target_user_id signal) of
        Some sid \<Rightarrow>
          (Status ''sent'',
           sio_emit ''webrtc_signal''
             (Signal (ws_type signal) user_id (ws_conversation_id signal) (ws_signal_data signal))
             (Some sid) s)
      | None \<Rightarrow> (Status ''user_offline'', s))"

text \<open>
  A missing \<^verbatim>\<open>target_user_id\<close> is \<^verbatim>\<open>None\<close>, which is no key of the dictionary; a
  missing \<^verbatim>\<open>caller_id\<close> matches no user row; a missing \<^verbatim>\<open>call_type\<close> is \<^verbatim>\<open>'video'\<close>.
\<close>

definition call_user :: "state \<Rightarrow> string \<Rightarrow> call_data \<Rightarrow> reply \<times> state" where
  "call_user s sid data =
     (case (case cd_target_user_id data of
              None \<Rightarrow> None | Some t \<Rightarrow> map_of (connected_users s) t) of
        Some target_sid \<Rightarrow>
          let caller = (case cd_caller_id data of
                          None \<Rightarrow> None
                        | Some c \<Rightarrow> (case filter (\<lambda>u. u_id u = c) (users s) of
                                       [] \<Rightarrow> None | u # _ \<Rightarrow> Some u))
          in (Status ''ringing'',
              sio_emit ''incoming_call''
                (IncomingCall (cd_caller_id data)
                   (case caller of Some u \<Rightarrow> u_username u | None \<Rightarrow> ''Unknown'')
                   (case caller of Some u \<Rightarrow> u_avatar_url u | None \<Rightarrow> None)
                   (cd_conversation_id data)
                   (case cd_call_type data of Some t \<Rightarrow> t | None \<Rightarrow> ''video''))
                (Some target_sid) s)
      | None \<Rightarrow> (Status ''user_offline'', s))"

text \<open>
  The socket handlers that forward the client's dictionary as it is. None of them has
  a \<^verbatim>\<open>return\<close>; \<open>accept_call\<close> and \<open>reject_call\<close> address the caller.
\<close>

definition webrtc_offer :: "state \<Rightarrow> string \<Rightarrow> call_data \<Rightarrow> reply \<times> state" where
  "webrtc_offer s sid data =
     (case (case cd_target_user_id data of
              None \<Rightarrow> None | Some t \<Rightarrow> map_of (connected_users s) t) of
        Some target_sid \<Rightarrow> (NoReply, sio_emit ''webrtc_offer'' (Data data) (Some target_sid) s)
      | None \<Rightarrow> (NoReply, s))"

definition webrtc_answer :: "state \<Rightarrow> string \<Rightarrow> call_data \<Rightarrow> reply \<times> state" where
  "webrtc_answer s sid data =
     (case (case cd_target_user_id data of
              None \<Rightarrow> None | Some t \<Rightarrow> map_of (connected_users s) t) of
        Some target_sid \<Rightarrow> (NoReply, sio_emit ''webrtc_answer'' (Data data) (Some target_sid) s)
      | None \<Rightarrow> (NoReply, s))"

definition webrtc_ice_candidate :: "state \<Rightarrow> string \<Rightarrow> call_data \<Rightarrow> reply \<times> state" where
  "webrtc_ice_candidate s sid data =
     (case (case cd_target_user_id data of
              None \<Rightarrow> None | Some t \<Rightarrow> map_of (connected_users s) t) of
        Some target_sid \<Rightarrow>
          (NoReply, sio_emit ''webrtc_ice_candidate'' (Data data) (Some target_sid) s)
      | None \<Rightarrow> (NoReply, s))"

definition accept_call :: "state \<Rightarrow> string \<Rightarrow> call_data \<Rightarrow> reply \<times> state" where
  "accept_call s sid data =
     (case (case cd_caller_id data of
              None \<Rightarrow> None | Some c \<Rightarrow> map_of (connected_users s) c) of
        Some caller_sid \<Rightarrow> (NoReply, sio_emit ''call_accepted'' (Data data) (Some caller_sid) s)
      | None \<Rightarrow> (NoReply, s))"

definition reject_call :: "state \<Rightarrow> string \<Rightarrow> call_data \<Rightarrow> reply \<times> state" where
  "reject_call s sid data =
     (case (case cd_caller_id data of
              None \<Rightarrow> None | Some c \<Rightarrow> map_of (connected_users s) c) of
        Some caller_sid \<Rightarrow> (NoReply, sio_emit ''call_rejected'' (Data data) (Some caller_sid) s)
      | None \<Rightarrow> (NoReply, s))"

definition end_call :: "state \<Rightarrow> string \<Rightarrow> call_data \<Rightarrow> reply \<times> state" where
  "end_call s sid data =
     (case (case cd_target_user_id data of
              None \<Rightarrow> None | Some t \<Rightarrow> map_of (connected_users s) t) of
        Some target_sid \<Rightarrow> (NoReply, sio_emit ''call_ended'' (Data data) (Some target_sid) s)
      | None \<Rightarrow> (NoReply, s))"

text \<open>
  The six forwarding handlers, each with the event it emits and the key of the
  dictionary that names the user it addresses.
\<close>

definition socket_relays ::
  "((state \<Rightarrow> string \<Rightarrow> call_data \<Rightarrow> reply \<times> state) \<times> string \<times> (call_data \<Rightarrow> string option)) list" where
  "socket_relays =
     [(webrtc_offer, ''webrtc_offer'', cd_target_user_id),
      (webrtc_answer, ''webrtc_answer'', cd_target_user_id),
      (webrtc_ice_candidate, ''webrtc_ice_candidate'', cd_target_user_id),
      (accept_call, ''call_accepted'', cd_caller_id),
      (reject_call, ''call_rejected'', cd_caller_id),
      (end_call, ''call_ended'', cd_target_user_id)]"

text \<open>
  \<^verbatim>\<open>disconnect\<close>: the first user bound to \<open>sid\<close>, in the dictionary's order; the
  test \<^verbatim>\<open>if user_to_remove:\<close> is also false for an empty user id.
\<close>

definition disconnect :: "state \<Rightarrow> string \<Rightarrow> state" where
  "disconnect s sid =
     (case find (\<lambda>(uid, s'). s' = sid) (connected_users s) of
        None \<Rightarrow> s
      | Some (user_to_remove, _) \<Rightarrow>
          if user_to_remove = [] then s
          else
            let s1 = s\<lparr>connected_users := AList.delete user_to_remove (connected_users s)\<rparr>;
                s2 = sio_emit ''user_offline'' (UserOffline user_to_remove) None s1
            in if in_dict user_to_remove (user_rooms s2)
               then s2\<lparr>user_rooms := AList.delete user_to_remove (user_rooms s2)\<rparr>
               else s2)"

subsection \<open>Predicates on the store\<close>

definition is_participant :: "state \<Rightarrow> string \<Rightarrow> string \<Rightarrow> bool" where
  "is_participant s conv_id user_id =
     (\<exists>p \<in> set (conversation_participants s). p_conversation_id p = conv_id \<and> p_user_id p = user_id)"

definition has_pending :: "state \<Rightarrow> string \<Rightarrow> string \<Rightarrow> bool" where
  "has_pending s sender receiver =
     (\<exists>r \<in> set (chat_requests s). r_sender_id r = sender \<and> r_receiver_id r = receiver \<and> r_status r = Pending)"

text \<open>No two pending requests have the same (sender, receiver) pair.\<close>

definition at_most_one_pending :: "state \<Rightarrow> bool" where
  "at_most_one_pending s =
     distinct (map (\<lambda>r. (r_sender_id r, r_receiver_id r))
                 (filter (\<lambda>r. r_status r = Pending) (chat_requests s)))"

subsection \<open>Predicates on conversations\<close>


definition fresh_conv_id :: "state \<Rightarrow> string \<Rightarrow> bool" where
  "fresh_conv_id s cid =
     (cid \<notin> set (map c_id (conversations s))
      \<and> cid \<notin> set (map p_conversation_id (conversation_participants s)))"

definition is_direct :: "state \<Rightarrow> string set \<Rightarrow> string \<Rightarrow> bool" where
  "is_direct s members cid =
     (filter (\<lambda>c. c_id c = cid \<and> \<not> c_is_group c) (conversations s) \<noteq> []
      \<and> set (participants_of s cid) = members)"



subsection \<open>An example state\<close>

text \<open>
  Alice, Bob and Carol; Alice and Bob share the direct conversation \<open>c1\<close> with two
  messages; Alice has a pending request to Bob; only Bob is connected.
\<close>

definition ex_uuid :: "nat \<Rightarrow> string" where
  "ex_uuid k = replicate (Suc k) CHR ''n''"

definition ex_clock :: "nat \<Rightarrow> nat" where
  "ex_clock k = 100 + k"

definition ex_state :: state where
  "ex_state =
     \<lparr>users = [\<lparr>u_id = ''a'', u_email = ''a@x'', u_username = ''alice'', u_password_hash = ''h1'',
                 u_avatar_url = None, u_created_at = 1\<rparr>,
               \<lparr>u_id = ''b'', u_email = ''b@x'', u_username = ''bob'', u_password_hash = ''h2'',
                 u_avatar_url = None, u_created_at = 2\<rparr>,
               \<lparr>u_id = ''c'', u_email = ''c@x'', u_username = ''carol'', u_password_hash = ''h3'',
                 u_avatar_url = None, u_created_at = 3\<rparr>],
      conversations = [\<lparr>c_id = ''c1'', c_name = None, c_is_group = False, c_created_by = ''a'',
                         c_created_at = 5\<rparr>],
      conversation_participants =
        [\<lparr>p_id = ''p1'', p_conversation_id = ''c1'', p_user_id = ''a'', p_joined_at = 5\<rparr>,
         \<lparr>p_id = ''p2'', p_conversation_id = ''c1'', p_user_id = ''b'', p_joined_at = 5\<rparr>],
      messages =
        [\<lparr>m_id = ''m1'', m_conversation_id = ''c1'', m_sender_id = ''a'', m_content = ''hi'',
          m_message_type = ''text'', m_read_by = [''a''], m_created_at = 10\<rparr>,
         \<lparr>m_id = ''m2'', m_conversation_id = ''c1'', m_sender_id = ''b'', m_content = ''yo'',
          m_message_type = ''text'', m_read_by = [''b''], m_created_at = 20\<rparr>],
      chat_requests =
        [\<lparr>r_id = ''r1'', r_sender_id = ''a'', r_receiver_id = ''b'', r_message = None,
          r_status = Pending, r_is_group_invite = False, r_conversation_id = None,
          r_created_at = 4\<rparr>],
      connected_users = [(''b'', ''sb'')],
      user_rooms = [(''b'', [''c1''])],
      emitted = []\<rparr>"

definition ex_accepted :: state where
  "ex_accepted = snd (accept_chat_request remdups ex_uuid ex_clock ex_state ''r1'' ''b'')"



definition ex_signal :: "string \<Rightarrow> WebRTCSignal" where
  "ex_signal target = \<lparr>ws_type = ''offer'', ws_target_user_id = target,
     ws_conversation_id = ''c1'', ws_signal_data = [(''sdp'', ''v=0'')]\<rparr>"

definition ex_call :: "string \<Rightarrow> call_data" where
  "ex_call target = \<lparr>cd_target_user_id = Some target, cd_caller_id = Some ''a'',
     cd_conversation_id = Some ''c1'', cd_call_type = None, cd_rest = [(''sdp'', ''v=0'')]\<rparr>"

text \<open>
  A store with two direct conversations of Alice and Bob, reached through the handlers:
  each creates a conversation with nobody else, invites the other into it with a group
  invite, and accepts the other's invite.
\<close>

definition ex_ids :: "string \<Rightarrow> nat \<Rightarrow> string" where
  "ex_ids p k = p @ replicate k CHR ''n''"

definition ex_solo :: ConversationCreate where
  "ex_solo = \<lparr>cc_name = None, cc_is_group = False, cc_participant_ids = []\<rparr>"

definition ex_invitation :: "string \<Rightarrow> string \<Rightarrow> ChatRequestCreate" where
  "ex_invitation receiver conv = \<lparr>rc_receiver_id = receiver, rc_message = None,
     rc_is_group_invite = True, rc_conversation_id = Some conv\<rparr>"

definition ex_empty :: state where
  "ex_empty = ex_state\<lparr>conversations := [], conversation_participants := [], messages := [],
     chat_requests := []\<rparr>"

definition ex_dup1 :: state where
  "ex_dup1 = snd (create_conversation remdups (ex_ids ''x1'') ex_clock ex_empty ex_solo ''a'')"

definition ex_dup2 :: state where
  "ex_dup2 = snd (create_conversation remdups (ex_ids ''x2'') ex_clock ex_dup1 ex_solo ''b'')"

definition ex_dup3 :: state where
  "ex_dup3 = snd (create_chat_request (ex_ids ''q1'') ex_clock True ex_dup2
                    (ex_invitation ''b'' ''x1'') ''a'')"

definition ex_dup4 :: state where
  "ex_dup4 = snd (create_chat_request (ex_ids ''q2'') ex_clock True ex_dup3
                    (ex_invitation ''a'' ''x2'') ''b'')"

definition ex_dup5 :: state where
  "ex_dup5 = snd (accept_chat_request remdups (ex_ids ''j1'') ex_clock ex_dup4 ''q2'' ''a'')"

definition ex_dup :: state where
  "ex_dup = snd (accept_chat_request remdups (ex_ids ''j2'') ex_clock ex_dup5 ''q1'' ''b'')"

section \<open>Properties\<close>

subsection \<open>Helper lemmas\<close>

lemma filter_empty_participant:
  "(filter (\<lambda>p. p_conversation_id p = c \<and> p_user_id p = u) (conversation_participants s) = [])
     = (\<not> is_participant s c u)"
  by (auto simp: is_participant_def filter_empty_conv)

lemma find_sid_None:
  "sid \<notin> snd ` set d \<Longrightarrow> find (\<lambda>(uid, s'). s' = sid) d = None"
  by (induction d) auto

lemma mark_read_already:
  "filter (\<lambda>m. m_id m = msg_id) (messages s) = msg # rest \<Longrightarrow> u \<in> set (m_read_by msg)
   \<Longrightarrow> mark_message_read s msg_id u = (Inr ''ok'', s)"
  by (simp add: mark_message_read_def)

lemma mark_read_new:
  "filter (\<lambda>m. m_id m = msg_id) (messages s) = msg # rest \<Longrightarrow> u \<notin> set (m_read_by msg)
   \<Longrightarrow> mark_message_read s msg_id u =
       (Inr ''ok'', s\<lparr>messages := map (\<lambda>m. if m_id m = msg_id then m\<lparr>m_read_by := m_read_by msg @ [u]\<rparr> else m) (messages s),
                      emitted := emitted s @ [\<lparr>e_event = ''message_read'', e_payload = MessageRead msg_id u,
                                               e_room = Some (m_conversation_id msg)\<rparr>]\<rparr>)"
  by (simp add: mark_message_read_def sio_emit_def Let_def)

lemma filter_map_upd:
  "filter (\<lambda>m. m_id m = i) (map (\<lambda>m. if m_id m = i then m\<lparr>m_read_by := rb\<rparr> else m) ms)
     = map (\<lambda>m. m\<lparr>m_read_by := rb\<rparr>) (filter (\<lambda>m. m_id m = i) ms)"
  by (induction ms) auto

lemma mark_read_twice:
  assumes "filter (\<lambda>m. m_id m = msg_id) (messages s) = msg # rest"
  shows "mark_message_read (snd (mark_message_read s msg_id u)) msg_id u
           = (Inr ''ok'', snd (mark_message_read s msg_id u))"
proof (cases "u \<in> set (m_read_by msg)")
  case True
  with assms show ?thesis by (simp add: mark_read_already)
next
  case False
  let ?s' = "snd (mark_message_read s msg_id u)"
  have "filter (\<lambda>m. m_id m = msg_id) (messages ?s')
          = msg\<lparr>m_read_by := m_read_by msg @ [u]\<rparr> # map (\<lambda>m. m\<lparr>m_read_by := m_read_by msg @ [u]\<rparr>) rest"
    using assms False by (simp add: mark_read_new filter_map_upd)
  then show ?thesis by (rule mark_read_already) simp
qed

lemma chat_requests_get_conversation_irrelevant:
  "chat_requests (snd (create_conversation los uuid clock s cd u)) = chat_requests s"
  by (auto simp: create_conversation_def Let_def split: option.splits)

lemma pending_set_status:
  "st \<noteq> Pending \<Longrightarrow>
   filter (\<lambda>r. r_status r = Pending) (map (\<lambda>r. if r_id r = i then r\<lparr>r_status := st\<rparr> else r) rs)
     = filter (\<lambda>r. r_id r \<noteq> i) (filter (\<lambda>r. r_status r = Pending) rs)"
  by (induction rs) auto

lemma at_most_one_pending_set_status:
  assumes "st \<noteq> Pending" "at_most_one_pending s"
  shows "at_most_one_pending (set_status i st s)"
proof -
  have "distinct (map (\<lambda>r. (r_sender_id r, r_receiver_id r))
          (filter (\<lambda>r. r_id r \<noteq> i) (filter (\<lambda>r. r_status r = Pending) (chat_requests s))))"
    using assms(2) unfolding at_most_one_pending_def by (rule distinct_map_filter)
  then show ?thesis
    using assms(1)
    by (simp add: at_most_one_pending_def set_status_def pending_set_status del: filter_filter)
qed

lemma at_most_one_pending_create_conversation:
  "at_most_one_pending (snd (create_conversation los uuid clock s cd u)) = at_most_one_pending s"
  by (simp add: at_most_one_pending_def chat_requests_get_conversation_irrelevant)

lemma at_most_one_pending_accept:
  "at_most_one_pending s \<Longrightarrow> at_most_one_pending (snd (accept_chat_request los uuid clock s i u))"
proof -
  assume a: "at_most_one_pending s"
  have b: "at_most_one_pending (set_status i Accepted s)"
    using a by (simp add: at_most_one_pending_set_status)
  have c: "\<And>ps. at_most_one_pending (set_status i Accepted s\<lparr>conversation_participants := ps\<rparr>)"
    using b by (simp add: at_most_one_pending_def)
  show ?thesis
    using a b c
    by (simp add: accept_chat_request_def Let_def at_most_one_pending_create_conversation
          split: list.splits)
qed

lemma at_most_one_pending_reject:
  "at_most_one_pending s \<Longrightarrow> at_most_one_pending (snd (reject_chat_request s i u))"
  by (auto simp: reject_chat_request_def at_most_one_pending_set_status split: list.splits)

lemma existing_empty:
  "(filter (\<lambda>r. r_sender_id r = a \<and> r_receiver_id r = b \<and> r_status r = Pending) (chat_requests s) = [])
     = (\<not> has_pending s a b)"
  by (auto simp: has_pending_def filter_empty_conv)

lemma at_most_one_pending_create:
  "at_most_one_pending s \<Longrightarrow> at_most_one_pending (snd (create_chat_request uuid clock ok s rd a))"
  by (auto simp: create_chat_request_def Let_def existing_empty has_pending_def sio_emit_def
        at_most_one_pending_def split: option.splits)

lemma sorted_rev_order_desc: "sorted (map key (rev (order_desc key rows)))"
  by (simp add: order_desc_def)

lemma sorted_rev_take_drop:
  assumes "sorted (map f (rev xs))"
  shows "sorted (map f (rev (take n (drop k xs))))"
proof -
  have "sorted (rev (map f xs))" using assms by (simp add: rev_map)
  then have d: "sorted_wrt (\<lambda>x y. y \<le> x) (map f xs)" by (simp add: sorted_wrt_rev)
  have "sorted_wrt (\<lambda>x y. y \<le> x) (take n (drop k (map f xs)))"
    using d by (intro sorted_wrt_take sorted_wrt_drop)
  then have "sorted_wrt (\<lambda>x y. y \<le> x) (map f (take n (drop k xs)))"
    by (simp add: take_map drop_map)
  then have "sorted (rev (map f (take n (drop k xs))))" by (simp add: sorted_wrt_rev)
  then show ?thesis by (simp add: rev_map)
qed

lemma range_rows_page:
  "0 \<le> offset \<Longrightarrow> 0 \<le> limit \<Longrightarrow>
   range_rows offset (offset + limit - 1) rows = take (nat limit) (drop (nat offset) rows)"
  by (simp add: range_rows_def nat_add_distrib)

lemma ex_accepted_requests:
  "chat_requests ex_accepted = [\<lparr>r_id = ''r1'', r_sender_id = ''a'', r_receiver_id = ''b'', r_message = None,
          r_status = Accepted, r_is_group_invite = False, r_conversation_id = None,
          r_created_at = 4\<rparr>]"
  by (simp add: ex_accepted_def accept_chat_request_def chat_requests_get_conversation_irrelevant
        set_status_def ex_state_def)

lemma accept_terminal_fails:
  "filter (\<lambda>r. r_id r = req_id \<and> r_receiver_id r = u) (chat_requests s) = req # rest
   \<Longrightarrow> r_status req \<noteq> Pending
   \<Longrightarrow> accept_chat_request los uuid clock s req_id u = (Inl RequestAlreadyProcessed, s)"
  by (simp add: accept_chat_request_def)



























lemma participants_of_set_status [simp]:
  "participants_of (set_status i st s) c = participants_of s c"
  by (simp add: participants_of_def set_status_def)

lemma conversations_set_status [simp]:
  "conversations (set_status i st s) = conversations s"
  by (simp add: set_status_def)

lemma is_direct_set_status [simp]:
  "is_direct (set_status i st s) m c = is_direct s m c"
  by (simp add: is_direct_def)

lemma fresh_set_status [simp]:
  "fresh_conv_id (set_status i st s) c = fresh_conv_id s c"
  by (simp add: fresh_conv_id_def set_status_def)





lemmas ex_dup_defs = ex_dup_def ex_dup5_def ex_dup4_def ex_dup3_def ex_dup2_def ex_dup1_def
  ex_empty_def ex_state_def ex_solo_def ex_invitation_def ex_ids_def ex_clock_def

lemmas handler_defs = create_conversation_def create_chat_request_def accept_chat_request_def
  set_status_def sio_emit_def new_participants_def get_conversation_def participants_of_def
  enumerate_eq_zip Let_def

text \<open>Every call on the way to \<open>ex_dup\<close> succeeds.\<close>

lemma ex_dup_reached:
  "\<not> isl (fst (create_conversation remdups (ex_ids ''x1'') ex_clock ex_empty ex_solo ''a''))"
  "\<not> isl (fst (create_conversation remdups (ex_ids ''x2'') ex_clock ex_dup1 ex_solo ''b''))"
  "\<not> isl (fst (create_chat_request (ex_ids ''q1'') ex_clock True ex_dup2
                 (ex_invitation ''b'' ''x1'') ''a''))"
  "\<not> isl (fst (create_chat_request (ex_ids ''q2'') ex_clock True ex_dup3
                 (ex_invitation ''a'' ''x2'') ''b''))"
  "\<not> isl (fst (accept_chat_request remdups (ex_ids ''j1'') ex_clock ex_dup4 ''q2'' ''a''))"
  "\<not> isl (fst (accept_chat_request remdups (ex_ids ''j2'') ex_clock ex_dup5 ''q1'' ''b''))"
  by (simp_all add: ex_dup_defs handler_defs)



subsection \<open>Claim C1: a processed request can still be rejected\<close>

text \<open>
  C1 says that once a request is accepted or rejected, every further accept and every
  further reject by the receiver fails and leaves the status as it is.
  \<open>accept_chat_request\<close> does check the status (lemma \<open>accept_terminal_fails\<close>), but
  \<open>reject_chat_request\<close> has no such check: in the example state Bob accepts Alice's
  request \<open>r1\<close>, and his later reject of the same request succeeds and overwrites the
  status \<open>Accepted\<close> by \<open>Rejected\<close>.
\<close>

theorem reject_after_accept_overwrites_status:
  "map r_status (chat_requests ex_state) = [Pending]
   \<and> map r_status (chat_requests ex_accepted) = [Accepted]
   \<and> fst (reject_chat_request ex_accepted ''r1'' ''b'') = Inr ''rejected''
   \<and> map r_status (chat_requests (snd (reject_chat_request ex_accepted ''r1'' ''b''))) = [Rejected]"
  by (simp add: ex_accepted_requests reject_chat_request_def set_status_def)
     (simp add: ex_state_def)

subsection \<open>Claim C2: a second create of the same direct conversation\<close>




subsection \<open>Claim C3: marking a message read is idempotent\<close>

text \<open>
  C3: for an existing message (the first row \<open>msg\<close> with the id), if the user is already
  in \<open>read_by\<close> the call writes nothing and emits nothing (the state is unchanged);
  otherwise the user is appended to \<open>read_by\<close>, the rows are updated and one
  \<open>message_read\<close> event is emitted to the room of the message's conversation. A second
  call after the first changes nothing.
\<close>

theorem mark_read_idempotent:
  assumes "filter (\<lambda>m. m_id m = msg_id) (messages s) = msg # rest"
  shows "(u \<in> set (m_read_by msg) \<longrightarrow> mark_message_read s msg_id u = (Inr ''ok'', s))
    \<and> (u \<notin> set (m_read_by msg) \<longrightarrow>
         fst (mark_message_read s msg_id u) = Inr ''ok''
       \<and> messages (snd (mark_message_read s msg_id u))
           = map (\<lambda>m. if m_id m = msg_id then m\<lparr>m_read_by := m_read_by msg @ [u]\<rparr> else m) (messages s)
       \<and> emitted (snd (mark_message_read s msg_id u))
           = emitted s @ [\<lparr>e_event = ''message_read'', e_payload = MessageRead msg_id u,
                            e_room = Some (m_conversation_id msg)\<rparr>])
    \<and> mark_message_read (snd (mark_message_read s msg_id u)) msg_id u
           = (Inr ''ok'', snd (mark_message_read s msg_id u))"
  using assms by (simp add: mark_read_already mark_read_new mark_read_twice)

theorem mark_read_idempotent_witness:
  "mark_message_read ex_state ''m1'' ''a'' = (Inr ''ok'', ex_state)
   \<and> mark_message_read (snd (mark_message_read ex_state ''m1'' ''b'')) ''m1'' ''b''
       = (Inr ''ok'', snd (mark_message_read ex_state ''m1'' ''b''))
   \<and> map m_read_by (messages (snd (mark_message_read ex_state ''m1'' ''b''))) = [[''a'', ''b''], [''b'']]"
proof -
  have f: "filter (\<lambda>m. m_id m = ''m1'') (messages ex_state) = hd (messages ex_state) # []"
    by (simp add: ex_state_def)
  have a: "''a'' \<in> set (m_read_by (hd (messages ex_state)))" by (simp add: ex_state_def)
  have b: "''b'' \<notin> set (m_read_by (hd (messages ex_state)))" by (simp add: ex_state_def)
  have m: "map (\<lambda>m. m_read_by (if m_id m = ''m1'' then m\<lparr>m_read_by := m_read_by (hd (messages ex_state)) @ [''b'']\<rparr> else m))
             (messages ex_state) = [[''a'', ''b''], [''b'']]"
    by (simp add: ex_state_def)
  show ?thesis
    using mark_read_idempotent[OF f, of "''a''"] mark_read_idempotent[OF f, of "''b''"] a b m
    by (simp add: comp_def)
qed

subsection \<open>Claim C4: messages are returned oldest first\<close>

text \<open>
  C4: for a requester who is a participant, and every limit and offset, \<open>get_messages\<close>
  returns a list sorted ascending by creation time; it is the reverse of the rows that
  \<open>range(offset, offset + limit - 1)\<close> selects from the store's newest-first order,
  which for a non-negative limit and offset is the page \<open>take limit (drop offset ...)\<close>.
\<close>

theorem get_messages_chronological:
  assumes "is_participant s conv_id user_id"
  shows "\<exists>ms. get_messages s conv_id limit offset user_id = Inr ms
      \<and> sorted (map mr_created_at ms)
      \<and> map mr_id ms = rev (map m_id (range_rows offset (offset + limit - 1)
            (order_desc m_created_at (filter (\<lambda>m. m_conversation_id m = conv_id) (messages s)))))
      \<and> (0 \<le> offset \<and> 0 \<le> limit \<longrightarrow>
           map mr_id ms = rev (map m_id (take (nat limit) (drop (nat offset)
            (order_desc m_created_at (filter (\<lambda>m. m_conversation_id m = conv_id) (messages s)))))))
      \<and> sorted (rev (map m_created_at
            (order_desc m_created_at (filter (\<lambda>m. m_conversation_id m = conv_id) (messages s)))))"
proof -
  let ?ord = "order_desc m_created_at (filter (\<lambda>m. m_conversation_id m = conv_id) (messages s))"
  let ?page = "range_rows offset (offset + limit - 1) ?ord"
  have p: "filter (\<lambda>p. p_conversation_id p = conv_id \<and> p_user_id p = user_id)
             (conversation_participants s) \<noteq> []"
    using assms by (simp add: filter_empty_participant)
  have res: "\<exists>f. get_messages s conv_id limit offset user_id
                 = Inr (rev (map (\<lambda>m. format_message m (f m)) ?page))"
  proof (cases "?page = []")
    case True
    then show ?thesis using p by (simp add: get_messages_def Let_def)
  next
    case False
    then show ?thesis using p by (auto simp add: get_messages_def Let_def)
  qed
  then obtain f where f: "get_messages s conv_id limit offset user_id
                 = Inr (rev (map (\<lambda>m. format_message m (f m)) ?page))" ..
  let ?ms = "rev (map (\<lambda>m. format_message m (f m)) ?page)"
  have fm: "map mr_created_at ?ms = map m_created_at (rev ?page)"
    by (simp add: format_message_def comp_def rev_map)
  have fi: "map mr_id ?ms = rev (map m_id ?page)"
    by (simp add: format_message_def comp_def rev_map)
  have s0: "sorted (map m_created_at (rev ?ord))"
    by (rule sorted_rev_order_desc)
  have s1: "sorted (map m_created_at (rev ?page))"
    unfolding range_rows_def using s0 by (rule sorted_rev_take_drop)
  have s2: "sorted (rev (map m_created_at ?ord))"
    using s0 by (simp add: rev_map)
  have pg: "0 \<le> offset \<and> 0 \<le> limit \<longrightarrow> ?page = take (nat limit) (drop (nat offset) ?ord)"
    by (simp add: range_rows_page)
  have "sorted (map mr_created_at ?ms)" using s1 fm by simp
  moreover have "0 \<le> offset \<and> 0 \<le> limit \<longrightarrow>
      map mr_id ?ms = rev (map m_id (take (nat limit) (drop (nat offset) ?ord)))"
    using fi pg by metis
  ultimately show ?thesis using f fi s2 by blast
qed

theorem get_messages_chronological_witness:
  "map mr_id (projr (get_messages ex_state ''c1'' 2 0 ''a'')) = [''m1'', ''m2'']
   \<and> sorted (map mr_created_at (projr (get_messages ex_state ''c1'' 2 0 ''a'')))"
proof -
  have p: "is_participant ex_state ''c1'' ''a''"
    by (simp add: is_participant_def ex_state_def)
  have o: "order_desc m_created_at (filter (\<lambda>m. m_conversation_id m = ''c1'') (messages ex_state))
             = rev (messages ex_state)"
    by (simp add: order_desc_def ex_state_def)
  have r: "rev (map m_id (range_rows 0 (0 + 2 - 1) (rev (messages ex_state)))) = [''m1'', ''m2'']"
    by (simp add: range_rows_def ex_state_def)
  show ?thesis
    using get_messages_chronological[OF p, of 2 0] o r by auto
qed

subsection \<open>Claim C5: disconnecting an unregistered session is a no-op\<close>

text \<open>
  C5: if no user is bound to the session id in \<open>connected_users\<close>, \<open>disconnect\<close>
  returns the state as it was: both dictionaries are unchanged and nothing is emitted.
  The function is total, so no exception is raised.
\<close>

theorem disconnect_unbound_noop:
  "sid \<notin> snd ` set (connected_users s) \<Longrightarrow> disconnect s sid = s"
  by (simp add: disconnect_def find_sid_None)

theorem disconnect_unbound_noop_witness:
  "''sx'' \<notin> snd ` set (connected_users ex_state) \<and> disconnect ex_state ''sx'' = ex_state"
proof -
  have h: "''sx'' \<notin> snd ` set (connected_users ex_state)" by (simp add: ex_state_def)
  show ?thesis using h disconnect_unbound_noop[OF h] by simp
qed

subsection \<open>Claim C6: sending a message\<close>

text \<open>
  C6: \<open>send_message\<close> fails with \<open>NotParticipant\<close> (403) exactly when the sender has no
  participant row for the conversation; it succeeds exactly when the sender is a
  participant and the store accepts the insert; on success the response and the
  appended row have \<open>read_by = [sender]\<close>; and the outcome does not depend on the
  connection registry or on the log of emitted events.
\<close>

theorem send_message_outcome:
  "(fst (send_message uuid clock insert_ok s msg_data u) = Inl NotParticipant
      \<longleftrightarrow> \<not> is_participant s (mc_conversation_id msg_data) u)
   \<and> ((\<exists>resp. fst (send_message uuid clock insert_ok s msg_data u) = Inr resp)
      \<longleftrightarrow> is_participant s (mc_conversation_id msg_data) u \<and> insert_ok)
   \<and> (\<forall>resp. fst (send_message uuid clock insert_ok s msg_data u) = Inr resp \<longrightarrow>
        mr_read_by resp = [u]
      \<and> (\<exists>row. messages (snd (send_message uuid clock insert_ok s msg_data u)) = messages s @ [row]
            \<and> m_read_by row = [u] \<and> m_id row = mr_id resp \<and> m_sender_id row = u
            \<and> m_conversation_id row = mc_conversation_id msg_data
            \<and> m_content row = mc_content msg_data))
   \<and> fst (send_message uuid clock insert_ok
            (s\<lparr>connected_users := cu, user_rooms := rooms, emitted := log\<rparr>) msg_data u)
       = fst (send_message uuid clock insert_ok s msg_data u)"
  by (auto simp: send_message_def filter_empty_participant Let_def sio_emit_def format_message_def
        is_participant_def)

theorem send_message_outcome_witness:
  "fst (send_message ex_uuid ex_clock True ex_state
          \<lparr>mc_conversation_id = ''c1'', mc_content = ''yo'', mc_message_type = ''text''\<rparr> ''c'')
     = Inl NotParticipant
   \<and> mr_read_by (projr (fst (send_message ex_uuid ex_clock True ex_state
          \<lparr>mc_conversation_id = ''c1'', mc_content = ''yo'', mc_message_type = ''text''\<rparr> ''a'')))
     = [''a'']"
proof -
  let ?md = "\<lparr>mc_conversation_id = ''c1'', mc_content = ''yo'', mc_message_type = ''text''\<rparr>"
  have c: "\<not> is_participant ex_state (mc_conversation_id ?md) ''c''"
    by (simp add: is_participant_def ex_state_def)
  have a: "is_participant ex_state (mc_conversation_id ?md) ''a''"
    by (simp add: is_participant_def ex_state_def)
  note n = send_message_outcome[of ex_uuid ex_clock True ex_state ?md "''c''"]
  note y = send_message_outcome[of ex_uuid ex_clock True ex_state ?md "''a''"]
  from y a obtain resp where
    r: "fst (send_message ex_uuid ex_clock True ex_state ?md ''a'') = Inr resp" by blast
  with y have "mr_read_by resp = [''a'']" by blast
  with r n c show ?thesis by simp
qed

subsection \<open>Claim C7: relaying a signal or a call\<close>

text \<open>
  C7 says that every call or WebRTC relay reports success when the target is connected
  and a distinct "target offline" value when it is not. That holds of \<open>webrtc_signal\<close>
  and \<open>call_user\<close> only. The six socket handlers of \<open>socket_relays\<close> return nothing in
  either case: in the example state Bob is connected and Carol is not, and
  \<open>webrtc_offer\<close> gives the same result for both.
\<close>

theorem relay_no_result_counterexample:
  "map_of (connected_users ex_state) ''b'' = Some ''sb''
   \<and> map_of (connected_users ex_state) ''c'' = None
   \<and> fst (webrtc_offer ex_state ''sa'' (ex_call ''b'')) = NoReply
   \<and> fst (webrtc_offer ex_state ''sa'' (ex_call ''c'')) = NoReply
   \<and> fst (webrtc_offer ex_state ''sa'' (ex_call ''b''))
       = fst (webrtc_offer ex_state ''sa'' (ex_call ''c''))"
  by (simp add: webrtc_offer_def ex_call_def) (simp add: ex_state_def)

text \<open>
  C7 as amended. \<open>webrtc_signal\<close>: if the target is in \<open>connected_users\<close>, exactly one
  \<open>webrtc_signal\<close> event with the type, the sender, the conversation and the signal data
  is emitted to the session registered for the target, and the result is \<open>sent\<close>;
  otherwise the result is \<open>user_offline\<close> and the state is unchanged. \<open>call_user\<close>: the
  same with one \<open>incoming_call\<close> event, carrying the caller's id, name and avatar (or
  \<open>Unknown\<close> and no avatar when no user row has the id), the conversation and the call
  type (default \<open>video\<close>), and the result \<open>ringing\<close>. The six handlers of
  \<open>socket_relays\<close>: if the addressed user is connected, the client's dictionary is
  forwarded as it is, in one event, to that user's session; otherwise nothing is
  emitted; in both cases nothing is returned. No handler changes \<open>connected_users\<close> or
  \<open>user_rooms\<close>.
\<close>

theorem relay_outcome:
  "(map_of (connected_users s) (ws_target_user_id signal) = Some tsid \<longrightarrow>
      fst (webrtc_signal s signal user_id) = Status ''sent'' \<and>
      emitted (snd (webrtc_signal s signal user_id)) = emitted s @
        [\<lparr>e_event = ''webrtc_signal'',
          e_payload = Signal (ws_type signal) user_id (ws_conversation_id signal) (ws_signal_data signal),
          e_room = Some tsid\<rparr>])
   \<and> (map_of (connected_users s) (ws_target_user_id signal) = None \<longrightarrow>
      webrtc_signal s signal user_id = (Status ''user_offline'', s))
   \<and> connected_users (snd (webrtc_signal s signal user_id)) = connected_users s
   \<and> user_rooms (snd (webrtc_signal s signal user_id)) = user_rooms s
   \<and> (cd_target_user_id data = Some t \<and> map_of (connected_users s) t = Some tsid \<longrightarrow>
      fst (call_user s sid data) = Status ''ringing'' \<and>
      emitted (snd (call_user s sid data)) = emitted s @
        [\<lparr>e_event = ''incoming_call'',
          e_payload = IncomingCall (cd_caller_id data)
            (case filter (\<lambda>u. Some (u_id u) = cd_caller_id data) (users s) of
               [] \<Rightarrow> ''Unknown'' | u # _ \<Rightarrow> u_username u)
            (case filter (\<lambda>u. Some (u_id u) = cd_caller_id data) (users s) of
               [] \<Rightarrow> None | u # _ \<Rightarrow> u_avatar_url u)
            (cd_conversation_id data)
            (case cd_call_type data of None \<Rightarrow> ''video'' | Some ct \<Rightarrow> ct),
          e_room = Some tsid\<rparr>])
   \<and> (cd_target_user_id data = None
        \<or> (cd_target_user_id data = Some t \<and> map_of (connected_users s) t = None) \<longrightarrow>
      call_user s sid data = (Status ''user_offline'', s))
   \<and> connected_users (snd (call_user s sid data)) = connected_users s
   \<and> user_rooms (snd (call_user s sid data)) = user_rooms s
   \<and> Status ''user_offline'' \<noteq> Status ''sent'' \<and> Status ''user_offline'' \<noteq> Status ''ringing''
   \<and> (\<forall>(handler, ev, key) \<in> set socket_relays.
        (key data = Some t \<and> map_of (connected_users s) t = Some tsid \<longrightarrow>
           handler s sid data =
             (NoReply, s\<lparr>emitted := emitted s @
                [\<lparr>e_event = ev, e_payload = Data data, e_room = Some tsid\<rparr>]\<rparr>))
      \<and> (key data = None \<or> (key data = Some t \<and> map_of (connected_users s) t = None) \<longrightarrow>
           handler s sid data = (NoReply, s))
      \<and> fst (handler s sid data) = NoReply
      \<and> connected_users (snd (handler s sid data)) = connected_users s
      \<and> user_rooms (snd (handler s sid data)) = user_rooms s)"
proof -
  have sig: "(map_of (connected_users s) (ws_target_user_id signal) = Some tsid \<longrightarrow>
      fst (webrtc_signal s signal user_id) = Status ''sent'' \<and>
      emitted (snd (webrtc_signal s signal user_id)) = emitted s @
        [\<lparr>e_event = ''webrtc_signal'',
          e_payload = Signal (ws_type signal) user_id (ws_conversation_id signal) (ws_signal_data signal),
          e_room = Some tsid\<rparr>])
   \<and> (map_of (connected_users s) (ws_target_user_id signal) = None \<longrightarrow>
      webrtc_signal s signal user_id = (Status ''user_offline'', s))
   \<and> connected_users (snd (webrtc_signal s signal user_id)) = connected_users s
   \<and> user_rooms (snd (webrtc_signal s signal user_id)) = user_rooms s"
    by (simp add: webrtc_signal_def sio_emit_def split: option.splits)
  have flt: "\<And>c. filter (\<lambda>u. Some (u_id u) = Some c) (users s) = filter (\<lambda>u. u_id u = c) (users s)"
    by simp
  have call: "(cd_target_user_id data = Some t \<and> map_of (connected_users s) t = Some tsid \<longrightarrow>
      fst (call_user s sid data) = Status ''ringing'' \<and>
      emitted (snd (call_user s sid data)) = emitted s @
        [\<lparr>e_event = ''incoming_call'',
          e_payload = IncomingCall (cd_caller_id data)
            (case filter (\<lambda>u. Some (u_id u) = cd_caller_id data) (users s) of
               [] \<Rightarrow> ''Unknown'' | u # _ \<Rightarrow> u_username u)
            (case filter (\<lambda>u. Some (u_id u) = cd_caller_id data) (users s) of
               [] \<Rightarrow> None | u # _ \<Rightarrow> u_avatar_url u)
            (cd_conversation_id data)
            (case cd_call_type data of None \<Rightarrow> ''video'' | Some ct \<Rightarrow> ct),
          e_room = Some tsid\<rparr>])
   \<and> (cd_target_user_id data = None
        \<or> (cd_target_user_id data = Some t \<and> map_of (connected_users s) t = None) \<longrightarrow>
      call_user s sid data = (Status ''user_offline'', s))
   \<and> connected_users (snd (call_user s sid data)) = connected_users s
   \<and> user_rooms (snd (call_user s sid data)) = user_rooms s"
    by (cases "cd_caller_id data"; cases "cd_call_type data")
       (auto simp: call_user_def sio_emit_def Let_def split: option.splits list.splits)
  have rel: "\<forall>(handler, ev, key) \<in> set socket_relays.
        (key data = Some t \<and> map_of (connected_users s) t = Some tsid \<longrightarrow>
           handler s sid data =
             (NoReply, s\<lparr>emitted := emitted s @
                [\<lparr>e_event = ev, e_payload = Data data, e_room = Some tsid\<rparr>]\<rparr>))
      \<and> (key data = None \<or> (key data = Some t \<and> map_of (connected_users s) t = None) \<longrightarrow>
           handler s sid data = (NoReply, s))
      \<and> fst (handler s sid data) = NoReply
      \<and> connected_users (snd (handler s sid data)) = connected_users s
      \<and> user_rooms (snd (handler s sid data)) = user_rooms s"
    by (auto simp: socket_relays_def webrtc_offer_def webrtc_answer_def webrtc_ice_candidate_def
          accept_call_def reject_call_def end_call_def sio_emit_def split: option.splits)
  show ?thesis using sig call rel by simp
qed

theorem relay_outcome_witness:
  "fst (webrtc_signal ex_state (ex_signal ''b'') ''a'') = Status ''sent''
   \<and> webrtc_signal ex_state (ex_signal ''c'') ''a'' = (Status ''user_offline'', ex_state)
   \<and> fst (call_user ex_state ''sa'' (ex_call ''b'')) = Status ''ringing''
   \<and> emitted (snd (call_user ex_state ''sa'' (ex_call ''b''))) =
       [\<lparr>e_event = ''incoming_call'',
         e_payload = IncomingCall (Some ''a'') ''alice'' None (Some ''c1'') ''video'',
         e_room = Some ''sb''\<rparr>]
   \<and> call_user ex_state ''sa'' (ex_call ''c'') = (Status ''user_offline'', ex_state)
   \<and> emitted (snd (end_call ex_state ''sa'' (ex_call ''b''))) =
       [\<lparr>e_event = ''call_ended'', e_payload = Data (ex_call ''b''), e_room = Some ''sb''\<rparr>]
   \<and> end_call ex_state ''sa'' (ex_call ''c'') = (NoReply, ex_state)"
proof -
  have b: "map_of (connected_users ex_state) ''b'' = Some ''sb''" by (simp add: ex_state_def)
  have c: "map_of (connected_users ex_state) ''c'' = None" by (simp add: ex_state_def)
  have tb: "ws_target_user_id (ex_signal ''b'') = ''b''" "cd_target_user_id (ex_call ''b'') = Some ''b''"
    and tc: "ws_target_user_id (ex_signal ''c'') = ''c''" "cd_target_user_id (ex_call ''c'') = Some ''c''"
    by (simp_all add: ex_signal_def ex_call_def)
  have e: "emitted ex_state = []" by (simp add: ex_state_def)
  have m: "(end_call, ''call_ended'', cd_target_user_id) \<in> set socket_relays"
    by (simp add: socket_relays_def)
  have pl: "IncomingCall (cd_caller_id (ex_call ''b''))
            (case filter (\<lambda>u. Some (u_id u) = cd_caller_id (ex_call ''b'')) (users ex_state) of
               [] \<Rightarrow> ''Unknown'' | u # _ \<Rightarrow> u_username u)
            (case filter (\<lambda>u. Some (u_id u) = cd_caller_id (ex_call ''b'')) (users ex_state) of
               [] \<Rightarrow> None | u # _ \<Rightarrow> u_avatar_url u)
            (cd_conversation_id (ex_call ''b''))
            (case cd_call_type (ex_call ''b'') of None \<Rightarrow> ''video'' | Some ct \<Rightarrow> ct)
          = IncomingCall (Some ''a'') ''alice'' None (Some ''c1'') ''video''"
    by (simp add: ex_call_def ex_state_def)
  note wb = relay_outcome[of ex_state "ex_signal ''b''" "''sb''" "''a''" "ex_call ''b''" "''b''" "''sa''"]
  note wc = relay_outcome[of ex_state "ex_signal ''c''" "''sb''" "''a''" "ex_call ''c''" "''c''" "''sa''"]
  have 1: "fst (webrtc_signal ex_state (ex_signal ''b'') ''a'') = Status ''sent''"
    using wb b tb by simp
  have 2: "webrtc_signal ex_state (ex_signal ''c'') ''a'' = (Status ''user_offline'', ex_state)"
    using wc c tc by simp
  have 3: "fst (call_user ex_state ''sa'' (ex_call ''b'')) = Status ''ringing''"
    using wb b tb by simp
  have 4: "emitted (snd (call_user ex_state ''sa'' (ex_call ''b''))) =
       [\<lparr>e_event = ''incoming_call'',
         e_payload = IncomingCall (Some ''a'') ''alice'' None (Some ''c1'') ''video'',
         e_room = Some ''sb''\<rparr>]"
    using wb b tb e pl by simp
  have 5: "call_user ex_state ''sa'' (ex_call ''c'') = (Status ''user_offline'', ex_state)"
    using wc c tc by simp
  have 6: "end_call ex_state ''sa'' (ex_call ''b'') =
       (NoReply, ex_state\<lparr>emitted := emitted ex_state @
          [\<lparr>e_event = ''call_ended'', e_payload = Data (ex_call ''b''), e_room = Some ''sb''\<rparr>]\<rparr>)"
    using wb m b tb by auto
  have 7: "end_call ex_state ''sa'' (ex_call ''c'') = (NoReply, ex_state)"
    using wc m c tc by auto
  show ?thesis using 1 2 3 4 5 6 7 e by simp
qed

subsection \<open>Claim C8: at most one pending request per ordered pair\<close>

text \<open>
  C8: \<open>create_chat_request\<close> fails with \<open>RequestAlreadySent\<close> (400), leaving the state
  unchanged, if a pending request from the sender to the receiver exists; otherwise,
  when the store accepts the insert, it appends one request with status \<open>Pending\<close>.
  Hence \<open>at_most_one_pending\<close> is kept by \<open>create_chat_request\<close>, and also by
  \<open>accept_chat_request\<close> and \<open>reject_chat_request\<close>, the other two handlers that write
  the table; it holds of the empty table.
\<close>

theorem create_chat_request_pending_unique:
  "(has_pending s a (rc_receiver_id rd) \<longrightarrow>
      create_chat_request uuid clock ok s rd a = (Inl RequestAlreadySent, s))
   \<and> (\<not> has_pending s a (rc_receiver_id rd) \<and> ok \<longrightarrow>
        (\<exists>resp. fst (create_chat_request uuid clock ok s rd a) = Inr resp \<and> rr_status resp = Pending)
      \<and> (\<exists>row. chat_requests (snd (create_chat_request uuid clock ok s rd a)) = chat_requests s @ [row]
            \<and> r_status row = Pending \<and> r_sender_id row = a \<and> r_receiver_id row = rc_receiver_id rd))
   \<and> (at_most_one_pending s \<longrightarrow>
        at_most_one_pending (snd (create_chat_request uuid clock ok s rd a))
      \<and> at_most_one_pending (snd (accept_chat_request los uuid' clock' s i u))
      \<and> at_most_one_pending (snd (reject_chat_request s i u)))
   \<and> at_most_one_pending (s\<lparr>chat_requests := []\<rparr>)"
proof -
  have 1: "has_pending s a (rc_receiver_id rd) \<longrightarrow>
      create_chat_request uuid clock ok s rd a = (Inl RequestAlreadySent, s)"
    by (simp add: create_chat_request_def existing_empty)
  have 2: "\<not> has_pending s a (rc_receiver_id rd) \<and> ok \<longrightarrow>
        (\<exists>resp. fst (create_chat_request uuid clock ok s rd a) = Inr resp \<and> rr_status resp = Pending)
      \<and> (\<exists>row. chat_requests (snd (create_chat_request uuid clock ok s rd a)) = chat_requests s @ [row]
            \<and> r_status row = Pending \<and> r_sender_id row = a \<and> r_receiver_id row = rc_receiver_id rd)"
    by (auto simp: create_chat_request_def existing_empty Let_def sio_emit_def split: option.splits)
  have 3: "at_most_one_pending (s\<lparr>chat_requests := []\<rparr>)"
    by (simp add: at_most_one_pending_def)
  show ?thesis
    using 1 2 3 at_most_one_pending_create at_most_one_pending_accept at_most_one_pending_reject
    by blast
qed

theorem create_chat_request_pending_unique_witness:
  "create_chat_request ex_uuid ex_clock True ex_state
      \<lparr>rc_receiver_id = ''b'', rc_message = None, rc_is_group_invite = False,
        rc_conversation_id = None\<rparr> ''a'' = (Inl RequestAlreadySent, ex_state)
   \<and> at_most_one_pending ex_state
   \<and> at_most_one_pending (snd (create_chat_request ex_uuid ex_clock True ex_state
      \<lparr>rc_receiver_id = ''a'', rc_message = None, rc_is_group_invite = False,
        rc_conversation_id = None\<rparr> ''b''))"
proof -
  let ?rd = "\<lparr>rc_receiver_id = ''b'', rc_message = None, rc_is_group_invite = False,
        rc_conversation_id = None\<rparr>"
  let ?rd2 = "\<lparr>rc_receiver_id = ''a'', rc_message = None, rc_is_group_invite = False,
        rc_conversation_id = None\<rparr>"
  have h: "has_pending ex_state ''a'' (rc_receiver_id ?rd)"
    by (simp add: has_pending_def ex_state_def)
  have i: "at_most_one_pending ex_state"
    by (simp add: at_most_one_pending_def ex_state_def)
  show ?thesis
    using create_chat_request_pending_unique[of ex_state "''a''" ?rd ex_uuid ex_clock True]
      create_chat_request_pending_unique[of ex_state "''b''" ?rd2 ex_uuid ex_clock True] h i
    by blast
qed

subsection \<open>Claim C9: marking a message read checks no participation\<close>

text \<open>
  C9: \<open>mark_message_read\<close> never looks at the participant rows. Its only error is
  \<open>MessageNotFound\<close> (404), raised exactly when no message has the id; for an existing
  message it succeeds for every user, the user is in \<open>read_by\<close> afterwards, and if
  the user was not there before, \<open>message_read\<close> is emitted to the room of the message's
  conversation.
\<close>

theorem mark_read_no_authorization:
  "(fst (mark_message_read s msg_id u) = Inl MessageNotFound
       \<longleftrightarrow> (\<forall>m \<in> set (messages s). m_id m \<noteq> msg_id))
   \<and> (\<forall>e. fst (mark_message_read s msg_id u) = Inl e \<longrightarrow> e = MessageNotFound)
   \<and> (\<forall>msg rest. filter (\<lambda>m. m_id m = msg_id) (messages s) = msg # rest \<longrightarrow>
        fst (mark_message_read s msg_id u) = Inr ''ok''
      \<and> (\<exists>msg' rest'. filter (\<lambda>m. m_id m = msg_id) (messages (snd (mark_message_read s msg_id u))) = msg' # rest'
            \<and> u \<in> set (m_read_by msg') \<and> set (m_read_by msg') = insert u (set (m_read_by msg))
            \<and> m_conversation_id msg' = m_conversation_id msg)
      \<and> (u \<notin> set (m_read_by msg) \<longrightarrow>
           emitted (snd (mark_message_read s msg_id u))
             = emitted s @ [\<lparr>e_event = ''message_read'', e_payload = MessageRead msg_id u,
                              e_room = Some (m_conversation_id msg)\<rparr>]))"
proof (cases "filter (\<lambda>m. m_id m = msg_id) (messages s)")
  case Nil
  then have "\<forall>m \<in> set (messages s). m_id m \<noteq> msg_id"
    by (simp add: filter_empty_conv)
  with Nil show ?thesis by (simp add: mark_message_read_def)
next
  case (Cons msg rest)
  then have "msg \<in> set (filter (\<lambda>m. m_id m = msg_id) (messages s))" by simp
  then have ex: "\<not> (\<forall>m \<in> set (messages s). m_id m \<noteq> msg_id)" by auto
  show ?thesis
  proof (cases "u \<in> set (m_read_by msg)")
    case True
    show ?thesis using Cons True ex
      by (auto simp: mark_read_already)
  next
    case False
    show ?thesis using Cons False ex
      by (auto simp: mark_read_new filter_map_upd)
  qed
qed

theorem mark_read_no_authorization_witness:
  "\<not> is_participant ex_state ''c1'' ''c''
   \<and> fst (mark_message_read ex_state ''m1'' ''c'') = Inr ''ok''
   \<and> emitted (snd (mark_message_read ex_state ''m1'' ''c''))
       = [\<lparr>e_event = ''message_read'', e_payload = MessageRead ''m1'' ''c'', e_room = Some ''c1''\<rparr>]
   \<and> fst (mark_message_read ex_state ''zz'' ''c'') = Inl MessageNotFound"
proof -
  have f: "filter (\<lambda>m. m_id m = ''m1'') (messages ex_state) = hd (messages ex_state) # []"
    by (simp add: ex_state_def)
  have c: "''c'' \<notin> set (m_read_by (hd (messages ex_state)))"
    "m_conversation_id (hd (messages ex_state)) = ''c1''" "emitted ex_state = []"
    by (simp_all add: ex_state_def)
  have z: "\<forall>m \<in> set (messages ex_state). m_id m \<noteq> ''zz''" by (simp add: ex_state_def)
  have n: "\<not> is_participant ex_state ''c1'' ''c''" by (simp add: is_participant_def ex_state_def)
  show ?thesis
    using mark_read_no_authorization[of ex_state "''m1''" "''c''"]
      mark_read_no_authorization[of ex_state "''zz''" "''c''"] f c z n
    by simp
qed

subsection \<open>Claim C10: a group invite without a conversation id\<close>



end
